theory Spec2Isabelle
  imports Main "HOL-Library.Sublist"
begin

section \<open>Strings\<close>

text \<open>
  A Python \<open>str\<close> is modelled as \<^typ>\<open>string\<close>, one \<^typ>\<open>char\<close> per code point; the
  model covers the code points below 256. \<open>py_isspace\<close> is \<open>str.isspace\<close> on one code
  point of that range (tab to carriage return, the four separators 28 to 31, space,
  NEL and the no-break space), and \<open>strip\<close> is \<open>str.strip()\<close> with no argument.
  \<open>toLowerCase\<close> is the JavaScript method of \<open>el.tagName.toLowerCase()\<close> on the same
  range: A to Z and the upper-case letters 192 to 222 (without the multiplication
  sign 215) move up by 32.
\<close>

definition py_isspace :: "char \<Rightarrow> bool" where
  "py_isspace c =
     (let n = (of_char c :: nat)
      in (9 \<le> n \<and> n \<le> 13) \<or> (28 \<le> n \<and> n \<le> 32) \<or> n = 133 \<or> n = 160)"

definition strip :: "string \<Rightarrow> string" where
  "strip s = rev (dropWhile py_isspace (rev (dropWhile py_isspace s)))"

definition lower_char :: "char \<Rightarrow> char" where
  "lower_char c =
     (let n = (of_char c :: nat)
      in if (65 \<le> n \<and> n \<le> 90) \<or> (192 \<le> n \<and> n \<le> 222 \<and> n \<noteq> 215)
         then char_of (n + 32) else c)"

definition toLowerCase :: "string \<Rightarrow> string" where
  "toLowerCase s = map lower_char s"

definition is_upper_ascii :: "char \<Rightarrow> bool" where
  "is_upper_ascii c = (let n = (of_char c :: nat) in 65 \<le> n \<and> n \<le> 90)"

text \<open>\<open>sep.join(xs)\<close> of Python.\<close>

fun join :: "string \<Rightarrow> string list \<Rightarrow> string" where
  "join sep [] = []"
| "join sep [x] = x"
| "join sep (x # y # ys) = x @ sep @ join sep (y # ys)"

section \<open>Data model\<close>

text \<open>
  An element handle returned by \<open>query_selector_all\<close>: the identity of the handle
  object (a new one for every query), the \<open>tagName\<close> property that
  \<open>element.evaluate\<close> reads, and the rendered text that \<open>element.inner_text()\<close>
  returns.
\<close>

record element =
  handle :: nat
  tagName :: string
  inner_text :: string

text \<open>The dictionary \<open>{'tag': tag_name, 'text': text}\<close> appended for an element
  (the field \<open>text\<close> is written \<open>text'\<close>).\<close>

record extracted_item =
  tag :: string
  text' :: string

text \<open>The dictionary returned by \<open>navigate_and_extract_content\<close>.\<close>

record extraction_result =
  initial_url :: string
  target_url :: string
  final_url :: string
  title :: string
  content :: "extracted_item list"
  full_text :: string

section \<open>Ordered content extraction\<close>

text \<open>
  The loop of \<open>navigate_and_extract_content\<close> over \<open>all_children\<close>, with
  \<open>collected_content\<close> as the accumulator: an element is appended when its stripped
  text is truthy, that is non-empty.
\<close>

fun collect_loop :: "element list \<Rightarrow> extracted_item list \<Rightarrow> extracted_item list" where
  "collect_loop [] collected_content = collected_content"
| "collect_loop (el # rest) collected_content =
     (let tag_name = toLowerCase (tagName el);
          text = strip (inner_text el)
      in if text \<noteq> []
         then collect_loop rest (collected_content @ [\<lparr>tag = tag_name, text' = text\<rparr>])
         else collect_loop rest collected_content)"

definition collect_content :: "element list \<Rightarrow> extracted_item list" where
  "collect_content all_children = collect_loop all_children []"

text \<open>The \<open>full_text\<close> entry: \<open>'\n\n'.join([item['text'] for item in collected_content])\<close>.\<close>

definition make_full_text :: "extracted_item list \<Rightarrow> string" where
  "make_full_text collected_content = join [CHR 0x0A, CHR 0x0A] (map text' collected_content)"

text \<open>
  The text that \<open>main.py\<close> passes to speech synthesis:
  \<open>reduce(lambda x, y: x + y['text'], content, "")\<close>.
\<close>

definition reduce_text :: "extracted_item list \<Rightarrow> string" where
  "reduce_text content_list = foldl (\<lambda>x y. x @ text' y) [] content_list"

section \<open>Errors, output and external calls\<close>

text \<open>
  An exception of the run: \<open>Exception\<close> is \<open>raise Exception(msg)\<close> of the source,
  \<open>ExternalError\<close> an exception of the browser automation library or of the speech
  model (a subclass of Python's \<open>Exception\<close>), \<open>SystemExit\<close> what \<open>exit(code)\<close>
  raises (a \<open>BaseException\<close>, which \<open>except Exception\<close> does not catch).
\<close>

datatype error =
    Exception string
  | ExternalError string
  | SystemExit nat

text \<open>The two page objects of the sequencer: \<open>page\<close> and \<open>new_page\<close>.\<close>

datatype tab = Page | New_page

text \<open>
  What the program prints, one constructor for each \<open>print\<close> statement (or block of
  adjacent ones), with the values its f-string interpolates.
\<close>

datatype message =
    Banner
  | Testing_cdp
  | Please_ensure
  | Starting_main
  | Successfully_extracted nat
  | Error_during_scraping error
  | Content_to_be_converted string
  | Navigating_to string
  | Clicking_element string
  | Element_clicked
  | Warning_click_not_found
  | Warning_could_not_click error
  | Getting_link
  | Debug_no_anchor string string
  | Found_count nat
  | Found_link string
  | Opening_new_tab string
  | Extracting_content string
  | Warning_content_not_found int
  | Debug_no_container string string
  | Extracted_header
  | Extracted_lines extracted_item
  | Cdp_successful string string
  | Cdp_failed error

text \<open>
  The observable actions of a run, in order: output, and the calls to the browser
  automation library and to the speech model with their arguments.
\<close>

datatype event =
    Stdout message
  | Connect_over_cdp string
  | Context_new_page
  | Goto tab string string "int option"
  | Wait_for_timeout tab int
  | Wait_for_selector tab string int
  | Query_selector tab string
  | Click string
  | Evaluate_href
  | Evaluate_count
  | Query_selector_all string
  | Browser_close
  | Tts_to_file string string bool

text \<open>
  What the browser answers during one connection. The calls that can fail are those
  of the error taxonomy: connecting (\<open>connect_over_cdp\<close> and \<open>browser.contexts[0]\<close>),
  navigating, waiting for a selector and clicking; \<open>None\<close> is success and \<open>Some m\<close>
  the message of the exception that the library raises. Pauses, queries, reads of
  properties and closing the connection succeed; entering and leaving the
  \<open>with sync_playwright()\<close> block is not recorded as an action.
  \<open>marker_elements\<close> lists the elements of class \<open>group/notification-list-item\<close>
  in document order, each as the \<open>href\<close> properties of its descendant anchors
  (the empty string for an anchor without one). \<open>content_container\<close> answers
  \<open>new_page.query_selector\<close>: \<open>None\<close>, or the container, given as what
  \<open>query_selector_all\<close> returns on it.
\<close>

record session =
  connect_result :: "string option"
  context_pages :: bool
  goto_result :: "tab \<Rightarrow> string \<Rightarrow> string option"
  wait_for_selector_result :: "tab \<Rightarrow> string \<Rightarrow> string option"
  click_element :: "string \<Rightarrow> bool"
  click_result :: "string option"
  marker_elements :: "string list list"
  page_title :: string
  page_url :: string
  new_page_title :: string
  new_page_url :: string
  content_container :: "string \<Rightarrow> element list option"

text \<open>A computation: its result or the exception it raised, and the actions it performed.\<close>

type_synonym 'a io = "(error + 'a) \<times> event list"

definition io_return :: "'a \<Rightarrow> 'a io" where
  "io_return x = (Inr x, [])"

definition raise :: "error \<Rightarrow> 'a io" where
  "raise e = (Inl e, [])"

definition emit :: "event \<Rightarrow> unit io" where
  "emit ev = (Inr (), [ev])"

text \<open>A call that the environment lets succeed or fail.\<close>

definition call :: "event \<Rightarrow> string option \<Rightarrow> unit io" where
  "call ev outcome =
     (case outcome of None \<Rightarrow> (Inr (), [ev]) | Some m \<Rightarrow> (Inl (ExternalError m), [ev]))"

definition io_bind :: "'a io \<Rightarrow> ('a \<Rightarrow> 'b io) \<Rightarrow> 'b io" where
  "io_bind m f =
     (case m of
        (Inl e, t) \<Rightarrow> (Inl e, t)
      | (Inr x, t) \<Rightarrow> (case f x of (r, t') \<Rightarrow> (r, t @ t')))"

text \<open>\<open>except Exception as e\<close>: every exception but \<open>SystemExit\<close> is caught.\<close>

fun is_Exception :: "error \<Rightarrow> bool" where
  "is_Exception (Exception m) = True"
| "is_Exception (ExternalError m) = True"
| "is_Exception (SystemExit n) = False"

definition try_except :: "'a io \<Rightarrow> (error \<Rightarrow> 'a io) \<Rightarrow> 'a io" where
  "try_except m handler =
     (case m of
        (Inl e, t) \<Rightarrow>
          (if is_Exception e then (case handler e of (r, t') \<Rightarrow> (r, t @ t')) else (Inl e, t))
      | (Inr x, t) \<Rightarrow> (Inr x, t))"

text \<open>\<open>try: ... finally: ...\<close>: the final block runs on every path.\<close>

definition try_finally :: "'a io \<Rightarrow> unit io \<Rightarrow> 'a io" where
  "try_finally m final =
     (case m of (r, t) \<Rightarrow>
        (case final of (Inl e, t') \<Rightarrow> (Inl e, t @ t') | (Inr u, t') \<Rightarrow> (r, t @ t')))"

section \<open>The navigation sequencer\<close>

text \<open>The class marker of the link-resolution step.\<close>

definition class_marker :: string where
  "class_marker = ''group/notification-list-item''"

text \<open>
  Step 1.5, the body of the inner \<open>try\<close>: wait for the click selector, resolve it,
  click it and pause 2000 ms, or report that it was not found.
\<close>

definition click_body :: "session \<Rightarrow> string \<Rightarrow> int \<Rightarrow> unit io" where
  "click_body s click_selector wait_time =
     io_bind (call (Wait_for_selector Page click_selector wait_time)
                (wait_for_selector_result s Page click_selector)) (\<lambda>_.
     io_bind (emit (Query_selector Page click_selector)) (\<lambda>_.
     if click_element s click_selector
     then io_bind (call (Click click_selector) (click_result s)) (\<lambda>_.
          io_bind (emit (Stdout Element_clicked)) (\<lambda>_.
          emit (Wait_for_timeout Page 2000)))
     else emit (Stdout Warning_click_not_found)))"

text \<open>
  \<open>if click_selector:\<close> with its \<open>try ... except Exception\<close>; the selector is
  \<open>None\<close> by default, and \<open>None\<close> and the empty string are falsy.
\<close>

definition click_step :: "session \<Rightarrow> string option \<Rightarrow> int \<Rightarrow> unit io" where
  "click_step s click_selector wait_time =
     (case click_selector of
        None \<Rightarrow> io_return ()
      | Some sel \<Rightarrow>
          if sel = [] then io_return ()
          else io_bind (emit (Stdout (Clicking_element sel))) (\<lambda>_.
               try_except (click_body s sel wait_time)
                 (\<lambda>e. emit (Stdout (Warning_could_not_click e)))))"

text \<open>
  The JavaScript of step 2: the first element of the class, then its first descendant
  anchor, then the anchor's \<open>href\<close>; \<open>null\<close> is \<open>None\<close>.
\<close>

definition evaluate_href :: "session \<Rightarrow> string option" where
  "evaluate_href s =
     (case marker_elements s of
        [] \<Rightarrow> None
      | element # _ \<Rightarrow> (case element of [] \<Rightarrow> None | anchor # _ \<Rightarrow> Some anchor))"

text \<open>The branch of step 2 under \<open>if not href\<close>: debugging output, then the exception.\<close>

definition link_not_found :: "session \<Rightarrow> string io" where
  "link_not_found s =
     io_bind (emit (Stdout (Debug_no_anchor (page_title s) (page_url s)))) (\<lambda>_.
     io_bind (emit Evaluate_count) (\<lambda>_.
     io_bind (emit (Stdout (Found_count (length (marker_elements s))))) (\<lambda>_.
     raise (Exception
       ''Could not find element with class 'group/notification-list-item' or its child anchor tag''))))"

text \<open>Step 2: \<open>not href\<close> holds for \<open>None\<close> and for the empty string.\<close>

definition resolve_link :: "session \<Rightarrow> string io" where
  "resolve_link s =
     io_bind (emit (Stdout Getting_link)) (\<lambda>_.
     io_bind (emit Evaluate_href) (\<lambda>_.
     case evaluate_href s of
       None \<Rightarrow> link_not_found s
     | Some href \<Rightarrow>
         if href = [] then link_not_found s
         else io_bind (emit (Stdout (Found_link href))) (\<lambda>_. io_return href)))"

text \<open>
  Steps 3 and 4: open the link in a new tab, wait for the content selector (an
  exception of the wait is caught and reported), resolve the container and raise when
  it is \<open>None\<close>. The result is \<open>all_children\<close>, what \<open>query_selector_all\<close>
  returns on the container.
\<close>

definition open_container :: "session \<Rightarrow> string \<Rightarrow> string \<Rightarrow> int \<Rightarrow> element list io" where
  "open_container s href content_selector wait_time =
     io_bind (emit Context_new_page) (\<lambda>_.
     io_bind (emit (Stdout (Opening_new_tab href))) (\<lambda>_.
     io_bind (call (Goto New_page href ''domcontentloaded'' (Some 60000))
                (goto_result s New_page href)) (\<lambda>_.
     io_bind (emit (Wait_for_timeout New_page wait_time)) (\<lambda>_.
     io_bind (emit (Stdout (Extracting_content content_selector))) (\<lambda>_.
     io_bind (try_except
                (call (Wait_for_selector New_page content_selector wait_time)
                   (wait_for_selector_result s New_page content_selector))
                (\<lambda>e. emit (Stdout (Warning_content_not_found wait_time)))) (\<lambda>_.
     io_bind (emit (Query_selector New_page content_selector)) (\<lambda>_.
     case content_container s content_selector of
       None \<Rightarrow>
         io_bind (emit (Stdout (Debug_no_container (new_page_title s) (new_page_url s)))) (\<lambda>_.
         raise (Exception
           (''Could not find content element with selector: '' @ content_selector)))
     | Some all_children \<Rightarrow>
         io_bind (emit (Query_selector_all ''p, h2, h3, h4, ul, ol, pre, code'')) (\<lambda>_.
         io_return all_children))))))))"

text \<open>Step 5 and the result: the collecting loop, the dictionary, the printed items.\<close>

definition build_result :: "session \<Rightarrow> string \<Rightarrow> string \<Rightarrow> element list \<Rightarrow> extraction_result io" where
  "build_result s initial href all_children =
     (let collected_content = collect_content all_children;
          result = \<lparr>initial_url = initial,
                    target_url = href,
                    final_url = new_page_url s,
                    title = new_page_title s,
                    content = collected_content,
                    full_text = make_full_text collected_content\<rparr>
      in (Inr result,
          Stdout Extracted_header # map (\<lambda>item. Stdout (Extracted_lines item)) collected_content))"

text \<open>The body of the outer \<open>try\<close>.\<close>

definition navigate_body ::
  "session \<Rightarrow> string \<Rightarrow> string \<Rightarrow> int \<Rightarrow> string option \<Rightarrow> extraction_result io" where
  "navigate_body s initial content_selector wait_time click_selector =
     io_bind (emit (Stdout (Navigating_to initial))) (\<lambda>_.
     io_bind (call (Goto Page initial ''domcontentloaded'' (Some 60000))
                (goto_result s Page initial)) (\<lambda>_.
     io_bind (emit (Wait_for_timeout Page wait_time)) (\<lambda>_.
     io_bind (click_step s click_selector wait_time) (\<lambda>_.
     io_bind (resolve_link s) (\<lambda>href.
     io_bind (open_container s href content_selector wait_time) (\<lambda>all_children.
     build_result s initial href all_children))))))"

text \<open>
  \<open>navigate_and_extract_content\<close>: connect, take the first page of the context or open
  one, run the body, and close the connection in the \<open>finally\<close> block.
\<close>

definition navigate_and_extract_content ::
  "session \<Rightarrow> string \<Rightarrow> string \<Rightarrow> string \<Rightarrow> int \<Rightarrow> string option \<Rightarrow> extraction_result io" where
  "navigate_and_extract_content s initial content_selector cdp_url wait_time click_selector =
     io_bind (call (Connect_over_cdp cdp_url) (connect_result s)) (\<lambda>_.
     io_bind (if context_pages s then io_return () else emit Context_new_page) (\<lambda>_.
     try_finally (navigate_body s initial content_selector wait_time click_selector)
       (emit Browser_close)))"

text \<open>The two selectors of \<open>navigate_with_specific_selectors\<close>.\<close>

definition the_click_selector :: string where
  "the_click_selector =
     ''#root > div.border-subtlest.ring-subtlest.divide-subtlest.bg-base > div > div > div.group''
     @ [CHR 0x5C] @ ''/sidebar.relative.z-10.hidden.min-h-0.flex-none.flex-row-reverse.md''
     @ [CHR 0x5C] @ '':flex.border-r.border-subtlest.ring-subtlest.divide-subtlest.bg-base > div.pb-md.scrollbar-none.relative.flex.h-full.flex-col.items-center.overflow-y-auto.overflow-x-hidden.border-subtlest.ring-subtlest.divide-subtlest.bg-transparent > div.gap-md.pt-sm.mt-auto.flex.w-full.min-w-0.flex-col.items-center.justify-center.''
     @ [CHR 0x5C] @ ''['' @ [CHR 0x5C] @ ''&'' @ [CHR 0x5C] @ ''>'' @ [CHR 0x5C] @ ''*''
     @ [CHR 0x5C] @ '']'' @ [CHR 0x5C] @ '':w-full.pb-sm > div.relative.flex.flex-col.items-center.justify-center > span > div > div > button''"

definition the_content_selector :: string where
  "the_content_selector = ''#markdown-content-0 > div > div > div''"

definition navigate_with_specific_selectors :: "session \<Rightarrow> string \<Rightarrow> string \<Rightarrow> extraction_result io" where
  "navigate_with_specific_selectors s initial cdp_url =
     navigate_and_extract_content s initial the_content_selector cdp_url 5000
       (Some the_click_selector)"

text \<open>
  \<open>test_cdp_connection\<close>: everything is inside \<open>try ... except Exception\<close>, which
  prints the failure and returns \<open>False\<close>.
\<close>

definition test_cdp_connection :: "session \<Rightarrow> string \<Rightarrow> bool io" where
  "test_cdp_connection s cdp_url =
     try_except
       (io_bind (call (Connect_over_cdp cdp_url) (connect_result s)) (\<lambda>_.
        io_bind (if context_pages s then io_return () else emit Context_new_page) (\<lambda>_.
        io_bind (call (Goto Page ''https://example.com'' ''networkidle'' None)
                   (goto_result s Page ''https://example.com'')) (\<lambda>_.
        io_bind (emit (Stdout (Cdp_successful (page_title s) (page_url s)))) (\<lambda>_.
        io_bind (emit Browser_close) (\<lambda>_.
        io_return True))))))
       (\<lambda>e. io_bind (emit (Stdout (Cdp_failed e))) (\<lambda>_. io_return False))"

section \<open>The synthesis sink\<close>

text \<open>
  \<open>generate_audio_file\<close>: print the text and call
  \<open>tts_to_file(text=text, file_path=output_file, split_sentences=False)\<close>;
  \<open>synth\<close> is what the model answers for a text (\<open>None\<close>: the file is written;
  \<open>Some m\<close>: the model raises).
\<close>

definition generate_audio_file :: "(string \<Rightarrow> string option) \<Rightarrow> string \<Rightarrow> string \<Rightarrow> unit io" where
  "generate_audio_file synth text output_file =
     io_bind (emit (Stdout (Content_to_be_converted text))) (\<lambda>_.
     call (Tts_to_file text output_file False) (synth text))"

section \<open>The program\<close>

text \<open>The body of the \<open>try\<close> of \<open>main.py\<close>.\<close>

definition main_body :: "session \<Rightarrow> (string \<Rightarrow> string option) \<Rightarrow> unit io" where
  "main_body s synth =
     io_bind (navigate_with_specific_selectors s ''https://www.perplexity.ai/''
                ''http://localhost:9222'') (\<lambda>result.
     io_bind (emit (Stdout (Successfully_extracted (length (content result))))) (\<lambda>_.
     generate_audio_file synth (reduce_text (content result)) ''content.wav''))"

text \<open>
  The \<open>__main__\<close> block: \<open>test_session\<close> is the browser during the connection test,
  \<open>s\<close> the browser during the scraping task.
\<close>

definition main :: "session \<Rightarrow> session \<Rightarrow> (string \<Rightarrow> string option) \<Rightarrow> unit io" where
  "main test_session s synth =
     io_bind (emit (Stdout Banner)) (\<lambda>_.
     io_bind (emit (Stdout Testing_cdp)) (\<lambda>_.
     io_bind (test_cdp_connection test_session ''http://localhost:9222'') (\<lambda>ok.
     if \<not> ok
     then io_bind (emit (Stdout Please_ensure)) (\<lambda>_. raise (SystemExit 1))
     else io_bind (emit (Stdout Starting_main)) (\<lambda>_.
          try_except (main_body s synth)
            (\<lambda>e. io_bind (emit (Stdout (Error_during_scraping e))) (\<lambda>_.
                  raise (SystemExit 1)))))))"

text \<open>
  The exit status of the process: 0 when the block ends, the code of \<open>exit\<close>, and 1
  for an exception that nothing caught.
\<close>

definition exit_code :: "unit io \<Rightarrow> nat" where
  "exit_code run =
     (case fst run of Inr u \<Rightarrow> 0 | Inl (SystemExit n) \<Rightarrow> n | Inl (Exception m) \<Rightarrow> 1
      | Inl (ExternalError m) \<Rightarrow> 1)"

text \<open>
  The calls to the speech model in a trace: text, output file and \<open>split_sentences\<close>.
\<close>

fun tts_calls :: "event list \<Rightarrow> (string \<times> string \<times> bool) list" where
  "tts_calls [] = []"
| "tts_calls (Tts_to_file text file split # es) = (text, file, split) # tts_calls es"
| "tts_calls (e # es) = tts_calls es"

section \<open>Sample inputs\<close>

text \<open>
  The container of the specification's scenario:
  \<open><h2>Title</h2><p>  </p><p>Body text</p>\<close>, with the upper-case tag names
  that an HTML document reports.
\<close>

definition sample_elements :: "element list" where
  "sample_elements =
     [\<lparr>handle = 1, tagName = ''H2'', inner_text = ''Title''\<rparr>,
      \<lparr>handle = 2, tagName = ''P'', inner_text = ''  ''\<rparr>,
      \<lparr>handle = 3, tagName = ''P'', inner_text = ''Body text''\<rparr>]"

text \<open>A browser in which every step of the run succeeds.\<close>

definition sample_session :: session where
  "sample_session =
     \<lparr>connect_result = None,
      context_pages = True,
      goto_result = (\<lambda>t url. None),
      wait_for_selector_result = (\<lambda>t sel. None),
      click_element = (\<lambda>sel. True),
      click_result = None,
      marker_elements = [[''https://www.perplexity.ai/page/1'']],
      page_title = ''Perplexity'',
      page_url = ''https://www.perplexity.ai/'',
      new_page_title = ''Article'',
      new_page_url = ''https://www.perplexity.ai/page/1'',
      content_container = (\<lambda>sel. Some sample_elements)\<rparr>"

text \<open>A speech model that accepts every text.\<close>

definition sample_synth :: "string \<Rightarrow> string option" where
  "sample_synth text = None"

section \<open>Facts about the extraction functions\<close>

lemma collect_loop_eq:
  "collect_loop els acc =
     acc @ map (\<lambda>el. \<lparr>tag = toLowerCase (tagName el), text' = strip (inner_text el)\<rparr>)
            (filter (\<lambda>el. strip (inner_text el) \<noteq> []) els)"
  by (induction els arbitrary: acc) (simp_all add: Let_def)

lemma collect_content_eq:
  "collect_content els =
     map (\<lambda>el. \<lparr>tag = toLowerCase (tagName el), text' = strip (inner_text el)\<rparr>)
       (filter (\<lambda>el. strip (inner_text el) \<noteq> []) els)"
  by (simp add: collect_content_def collect_loop_eq)

lemma foldl_text_eq: "foldl (\<lambda>x y. x @ text' y) acc xs = acc @ concat (map text' xs)"
  by (induction xs arbitrary: acc) simp_all

lemma reduce_text_eq: "reduce_text xs = concat (map text' xs)"
  by (simp add: reduce_text_def foldl_text_eq)

lemma length_join:
  "length (join sep xs) = sum_list (map length xs) + length sep * (length xs - 1)"
  by (induction sep xs rule: join.induct) simp_all

lemma join_neq_concat:
  assumes "2 \<le> length xs" and "sep \<noteq> []"
  shows "join sep xs \<noteq> concat xs"
proof
  assume "join sep xs = concat xs"
  then have "length (join sep xs) = length (concat xs)" by simp
  then have "length sep * (length xs - 1) = 0"
    by (simp add: length_join length_concat)
  with assms show False by simp
qed

lemma lower_char_not_upper: "\<not> is_upper_ascii (lower_char c)"
  by (auto simp add: lower_char_def is_upper_ascii_def Let_def)

section \<open>Facts about the steps of a run\<close>

lemma io_bind_pair:
  "io_bind (r, t) f = (case r of Inl e \<Rightarrow> (Inl e, t) | Inr x \<Rightarrow> (fst (f x), t @ snd (f x)))"
  by (simp add: io_bind_def split: prod.splits sum.splits)

lemma click_body_cases:
  "click_body s sel w =
     (case wait_for_selector_result s Page sel of
        Some m \<Rightarrow> (Inl (ExternalError m), [Wait_for_selector Page sel w])
      | None \<Rightarrow>
          if click_element s sel
          then (case click_result s of
                  Some m \<Rightarrow> (Inl (ExternalError m),
                     [Wait_for_selector Page sel w, Query_selector Page sel, Click sel])
                | None \<Rightarrow> (Inr (),
                     [Wait_for_selector Page sel w, Query_selector Page sel, Click sel,
                      Stdout Element_clicked, Wait_for_timeout Page 2000]))
          else (Inr (),
                  [Wait_for_selector Page sel w, Query_selector Page sel,
                   Stdout Warning_click_not_found]))"
  by (simp add: click_body_def io_bind_pair emit_def call_def split: option.splits)

lemma click_step_cases:
  "sel \<noteq> [] \<Longrightarrow> click_step s (Some sel) w =
     (Inr (), Stdout (Clicking_element sel) #
       (case wait_for_selector_result s Page sel of
        Some m \<Rightarrow> [Wait_for_selector Page sel w, Stdout (Warning_could_not_click (ExternalError m))]
      | None \<Rightarrow>
          if click_element s sel
          then (case click_result s of
                  Some m \<Rightarrow> 
                     [Wait_for_selector Page sel w, Query_selector Page sel, Click sel, Stdout (Warning_could_not_click (ExternalError m))]
                | None \<Rightarrow> 
                     [Wait_for_selector Page sel w, Query_selector Page sel, Click sel,
                      Stdout Element_clicked, Wait_for_timeout Page 2000])
          else 
                  [Wait_for_selector Page sel w, Query_selector Page sel,
                   Stdout Warning_click_not_found]))"
  by (simp add: click_step_def click_body_cases io_bind_pair try_except_def emit_def split: option.splits)

lemma click_step_never_raises: "fst (click_step s click w) = Inr ()"
  by (cases click) (simp_all add: click_step_def io_return_def click_body_cases io_bind_pair try_except_def emit_def split: option.splits)

lemma resolve_link_found:
  "evaluate_href s = Some href \<Longrightarrow> href \<noteq> [] \<Longrightarrow>
     resolve_link s = (Inr href, [Stdout Getting_link, Evaluate_href, Stdout (Found_link href)])"
  by (simp add: resolve_link_def io_bind_pair emit_def io_return_def)

lemma resolve_link_missing:
  "evaluate_href s = None \<or> evaluate_href s = Some [] \<Longrightarrow>
     resolve_link s =
       (Inl (Exception
          ''Could not find element with class 'group/notification-list-item' or its child anchor tag''),
        [Stdout Getting_link, Evaluate_href, Stdout (Debug_no_anchor (page_title s) (page_url s)),
         Evaluate_count, Stdout (Found_count (length (marker_elements s)))])"
  by (auto simp add: resolve_link_def link_not_found_def io_bind_pair emit_def raise_def)

lemma open_container_cases:
  "goto_result s New_page href = None \<Longrightarrow>
   open_container s href sel w =
     ((case content_container s sel of
         None \<Rightarrow> Inl (Exception (''Could not find content element with selector: '' @ sel))
       | Some els \<Rightarrow> Inr els),
      [Context_new_page, Stdout (Opening_new_tab href),
       Goto New_page href ''domcontentloaded'' (Some 60000), Wait_for_timeout New_page w,
       Stdout (Extracting_content sel), Wait_for_selector New_page sel w]
      @ (case wait_for_selector_result s New_page sel of
           None \<Rightarrow> [] | Some m \<Rightarrow> [Stdout (Warning_content_not_found w)])
      @ [Query_selector New_page sel]
      @ (case content_container s sel of
           None \<Rightarrow> [Stdout (Debug_no_container (new_page_title s) (new_page_url s))]
         | Some els \<Rightarrow> [Query_selector_all ''p, h2, h3, h4, ul, ol, pre, code'']))"
  by (simp add: open_container_def io_bind_pair try_except_def call_def emit_def raise_def io_return_def
       split: option.splits)

lemma tts_calls_append: "tts_calls (xs @ ys) = tts_calls xs @ tts_calls ys"
  by (induction xs rule: tts_calls.induct) simp_all

lemma tts_calls_stdout_map: "tts_calls (map (\<lambda>x. Stdout (f x)) xs) = []"
  by (induction xs) simp_all

lemma tts_calls_io_bind:
  assumes "tts_calls (snd m) = []" and "\<And>x. tts_calls (snd (f x)) = []"
  shows "tts_calls (snd (io_bind m f)) = []"
proof (cases m)
  case (Pair r t)
  with assms show ?thesis
    by (cases r) (simp_all add: io_bind_pair tts_calls_append)
qed

lemma click_step_pair: "click_step s click w = (Inr (), snd (click_step s click w))"
  by (metis click_step_never_raises prod.collapse)

lemma tts_calls_click_step: "tts_calls (snd (click_step s click w)) = []"
proof (cases click)
  case None
  then show ?thesis by (simp add: click_step_def io_return_def)
next
  case (Some sel)
  show ?thesis
  proof (cases "sel = []")
    case True
    with Some show ?thesis by (simp add: click_step_def io_return_def)
  next
    case False
    with Some show ?thesis by (simp add: click_step_cases split: option.splits)
  qed
qed

lemma tts_calls_resolve_link: "tts_calls (snd (resolve_link s)) = []"
  by (simp add: resolve_link_def link_not_found_def io_bind_pair emit_def raise_def io_return_def
      split: option.splits)

lemma tts_calls_open_container: "tts_calls (snd (open_container s href sel w)) = []"
  by (simp add: open_container_def io_bind_pair try_except_def call_def emit_def raise_def io_return_def
       split: option.splits)

lemma tts_calls_build_result: "tts_calls (snd (build_result s initial href els)) = []"
  by (simp add: build_result_def Let_def tts_calls_stdout_map)

lemma tts_calls_navigate_body:
  "tts_calls (snd (navigate_body s initial sel w click)) = []"
  unfolding navigate_body_def
  by (intro tts_calls_io_bind tts_calls_click_step tts_calls_resolve_link
        tts_calls_open_container tts_calls_build_result)
     (simp_all add: emit_def call_def split: option.splits)

lemma tts_calls_try_finally:
  assumes "tts_calls (snd m) = []" and "tts_calls (snd final) = []"
  shows "tts_calls (snd (try_finally m final)) = []"
proof (cases m)
  case m: (Pair r t)
  show ?thesis
  proof (cases final)
    case (Pair r' t')
    with m assms show ?thesis
      by (cases r') (simp_all add: try_finally_def tts_calls_append)
  qed
qed

lemma tts_calls_navigate:
  "tts_calls (snd (navigate_and_extract_content s initial sel cdp w click)) = []"
proof -
  have "tts_calls (snd (try_finally (navigate_body s initial sel w click) (emit Browser_close))) = []"
    by (rule tts_calls_try_finally) (simp_all add: emit_def tts_calls_navigate_body)
  then show ?thesis
    unfolding navigate_and_extract_content_def
    by (intro tts_calls_io_bind) (simp_all add: emit_def call_def io_return_def split: option.splits)
qed

lemma navigate_unfold:
  assumes "connect_result s = None" and "goto_result s Page initial = None"
  shows "navigate_and_extract_content s initial sel cdp w click =
     (fst (io_bind (resolve_link s) (\<lambda>href.
             io_bind (open_container s href sel w) (build_result s initial href))),
      Connect_over_cdp cdp # (if context_pages s then [] else [Context_new_page])
      @ [Stdout (Navigating_to initial), Goto Page initial ''domcontentloaded'' (Some 60000),
         Wait_for_timeout Page w]
      @ snd (click_step s click w)
      @ snd (io_bind (resolve_link s) (\<lambda>href.
               io_bind (open_container s href sel w) (build_result s initial href)))
      @ [Browser_close])"
  unfolding navigate_and_extract_content_def navigate_body_def
  apply (subst click_step_pair)
  apply (simp add: assms io_bind_pair call_def emit_def io_return_def try_finally_def split: prod.splits)
  done

lemma no_exit_io_bind:
  assumes "fst m \<noteq> Inl (SystemExit n)" and "\<And>x. fst (f x) \<noteq> Inl (SystemExit n)"
  shows "fst (io_bind m f) \<noteq> Inl (SystemExit n)"
proof (cases m)
  case (Pair r t)
  with assms show ?thesis
    by (cases r) (simp_all add: io_bind_pair)
qed

lemma no_exit_try_finally:
  assumes "fst m \<noteq> Inl (SystemExit n)" and "fst final \<noteq> Inl (SystemExit n)"
  shows "fst (try_finally m final) \<noteq> Inl (SystemExit n)"
proof (cases m)
  case m: (Pair r t)
  show ?thesis
  proof (cases final)
    case (Pair r' t')
    with m assms show ?thesis
      by (cases r') (simp_all add: try_finally_def)
  qed
qed

lemma no_exit_call: "fst (call ev outcome) \<noteq> Inl (SystemExit n)"
  by (simp add: call_def split: option.splits)

lemma no_exit_emit: "fst (emit ev) \<noteq> Inl (SystemExit n)"
  by (simp add: emit_def)

lemma no_exit_click_step: "fst (click_step s click w) \<noteq> Inl (SystemExit n)"
  by (simp add: click_step_never_raises)

lemma no_exit_resolve_link: "fst (resolve_link s) \<noteq> Inl (SystemExit n)"
  by (simp add: resolve_link_def link_not_found_def io_bind_pair emit_def raise_def io_return_def
      split: option.splits)

lemma no_exit_open_container: "fst (open_container s href sel w) \<noteq> Inl (SystemExit n)"
  by (simp add: open_container_def io_bind_pair try_except_def call_def emit_def raise_def io_return_def
       split: option.splits)

lemma no_exit_build_result: "fst (build_result s initial href els) \<noteq> Inl (SystemExit n)"
  by (simp add: build_result_def Let_def)

lemma no_exit_navigate:
  "fst (navigate_and_extract_content s initial sel cdp w click) \<noteq> Inl (SystemExit n)"
  unfolding navigate_and_extract_content_def navigate_body_def
  by (intro no_exit_io_bind no_exit_try_finally no_exit_call no_exit_emit no_exit_click_step
        no_exit_resolve_link no_exit_open_container no_exit_build_result)
     (simp_all add: emit_def io_return_def)

lemma no_exit_generate_audio_file:
  "fst (generate_audio_file synth text output_file) \<noteq> Inl (SystemExit n)"
  unfolding generate_audio_file_def
  by (intro no_exit_io_bind no_exit_call no_exit_emit)

lemma no_exit_main_body: "fst (main_body s synth) \<noteq> Inl (SystemExit n)"
  unfolding main_body_def navigate_with_specific_selectors_def
  by (intro no_exit_io_bind no_exit_navigate no_exit_generate_audio_file no_exit_emit)

lemma main_body_raises_exception: "fst (main_body s synth) = Inl e \<Longrightarrow> is_Exception e"
  using no_exit_main_body [of s synth] by (cases e) auto

lemma test_cdp_connection_cases:
  "test_cdp_connection s cdp =
     (Inr (connect_result s = None \<and> goto_result s Page ''https://example.com'' = None),
      Connect_over_cdp cdp #
      (case connect_result s of
         Some m \<Rightarrow> [Stdout (Cdp_failed (ExternalError m))]
       | None \<Rightarrow>
           (if context_pages s then [] else [Context_new_page])
           @ Goto Page ''https://example.com'' ''networkidle'' None #
           (case goto_result s Page ''https://example.com'' of
              Some m \<Rightarrow> [Stdout (Cdp_failed (ExternalError m))]
            | None \<Rightarrow> [Stdout (Cdp_successful (page_title s) (page_url s)), Browser_close])))"
  by (simp add: test_cdp_connection_def io_bind_pair try_except_def call_def emit_def io_return_def
      split: option.splits)

lemma main_cases:
  "main test_session s synth =
     (if connect_result test_session = None
         \<and> goto_result test_session Page ''https://example.com'' = None
      then (case fst (main_body s synth) of
              Inr u \<Rightarrow>
                (Inr (),
                 [Stdout Banner, Stdout Testing_cdp]
                 @ snd (test_cdp_connection test_session ''http://localhost:9222'')
                 @ [Stdout Starting_main] @ snd (main_body s synth))
            | Inl e \<Rightarrow>
                (Inl (SystemExit 1),
                 [Stdout Banner, Stdout Testing_cdp]
                 @ snd (test_cdp_connection test_session ''http://localhost:9222'')
                 @ [Stdout Starting_main] @ snd (main_body s synth)
                 @ [Stdout (Error_during_scraping e)]))
      else (Inl (SystemExit 1),
            [Stdout Banner, Stdout Testing_cdp]
            @ snd (test_cdp_connection test_session ''http://localhost:9222'')
            @ [Stdout Please_ensure]))"
proof (cases "main_body s synth")
  case (Pair r t)
  show ?thesis
  proof (cases r)
    case (Inl e)
    with Pair have "is_Exception e"
      using main_body_raises_exception [of s synth e] by simp
    with Pair Inl show ?thesis
      by (simp add: main_def test_cdp_connection_cases io_bind_pair try_except_def emit_def raise_def)
  next
    case (Inr u)
    with Pair show ?thesis
      by (simp add: main_def test_cdp_connection_cases io_bind_pair try_except_def emit_def raise_def)
  qed
qed

lemma tts_calls_test: "tts_calls (snd (test_cdp_connection s cdp)) = []"
  by (simp add: test_cdp_connection_cases tts_calls_append split: option.splits)

lemma main_body_cases:
  "main_body s synth =
     (case navigate_with_specific_selectors s ''https://www.perplexity.ai/'' ''http://localhost:9222'' of
        (Inl e, t) \<Rightarrow> (Inl e, t)
      | (Inr result, t) \<Rightarrow>
          ((case synth (reduce_text (content result)) of
              None \<Rightarrow> Inr () | Some m \<Rightarrow> Inl (ExternalError m)),
           t @ [Stdout (Successfully_extracted (length (content result))),
                Stdout (Content_to_be_converted (reduce_text (content result))),
                Tts_to_file (reduce_text (content result)) ''content.wav'' False]))"
  by (simp add: main_body_def generate_audio_file_def io_bind_pair emit_def call_def
      split: prod.splits sum.splits option.splits)

lemma io_bind_InrD: "fst (io_bind m f) = Inr y \<Longrightarrow> \<exists>x. fst m = Inr x \<and> fst (f x) = Inr y"
  by (cases m; cases "fst m") (auto simp add: io_bind_pair)

lemma try_finally_emit: "try_finally m (emit ev) = (fst m, snd m @ [ev])"
  by (simp add: try_finally_def emit_def split: prod.splits)

lemma navigate_result_shape:
  assumes "fst (navigate_and_extract_content s initial sel cdp w click) = Inr result"
  shows "\<exists>href els. result =
     \<lparr>initial_url = initial, target_url = href, final_url = new_page_url s,
      title = new_page_title s, content = collect_content els,
      full_text = make_full_text (collect_content els)\<rparr>"
proof -
  from assms have "fst (navigate_body s initial sel w click) = Inr result"
    unfolding navigate_and_extract_content_def
    by (auto dest!: io_bind_InrD simp add: try_finally_emit)
  then obtain href els where "fst (build_result s initial href els) = Inr result"
    unfolding navigate_body_def
    by (auto dest!: io_bind_InrD)
  then show ?thesis
    by (auto simp add: build_result_def Let_def)
qed

lemma resolve_link_trace: "\<exists>r t. resolve_link s = (r, Stdout Getting_link # Evaluate_href # t)"
  by (simp add: resolve_link_def link_not_found_def io_bind_pair emit_def raise_def io_return_def
      split: option.splits)

lemma io_bind_trace_prefix:
  assumes "m = (r, a # b # t)"
  shows "\<exists>post. snd (io_bind m f) = [a, b] @ post"
  using assms by (cases r) (simp_all add: io_bind_pair)

lemma click_step_no_query_all: "Query_selector_all q \<notin> set (snd (click_step s click w))"
proof (cases click)
  case None
  then show ?thesis by (simp add: click_step_def io_return_def)
next
  case (Some sel)
  show ?thesis
  proof (cases "sel = []")
    case True
    with Some show ?thesis by (simp add: click_step_def io_return_def)
  next
    case False
    with Some show ?thesis by (simp add: click_step_cases split: option.splits)
  qed
qed

lemma navigate_outcome:
  assumes "connect_result s = None" and "goto_result s Page initial = None"
    and "evaluate_href s = Some href" and "href \<noteq> []"
    and "goto_result s New_page href = None"
  shows "fst (navigate_and_extract_content s initial sel cdp w click) =
       (case content_container s sel of
          None \<Rightarrow> Inl (Exception (''Could not find content element with selector: '' @ sel))
        | Some all_children \<Rightarrow>
            Inr \<lparr>initial_url = initial, target_url = href, final_url = new_page_url s,
                 title = new_page_title s, content = collect_content all_children,
                 full_text = make_full_text (collect_content all_children)\<rparr>)"
  by (simp add: navigate_unfold [OF assms(1,2)] resolve_link_found [OF assms(3,4)]
        open_container_cases [OF assms(5)] io_bind_pair build_result_def Let_def
      split: option.splits)

lemma navigate_connect_fails:
  "connect_result s = Some m \<Longrightarrow>
     navigate_and_extract_content s initial sel cdp w click =
       (Inl (ExternalError m), [Connect_over_cdp cdp])"
  by (simp add: navigate_and_extract_content_def io_bind_pair call_def)

lemma main_body_success:
  assumes "fst (navigate_with_specific_selectors s ''https://www.perplexity.ai/''
                  ''http://localhost:9222'') = Inr result"
  shows "fst (main_body s synth) =
       (case synth (reduce_text (content result)) of
          None \<Rightarrow> Inr () | Some m \<Rightarrow> Inl (ExternalError m))
     \<and> tts_calls (snd (main_body s synth)) = [(reduce_text (content result), ''content.wav'', False)]"
proof (cases "navigate_with_specific_selectors s ''https://www.perplexity.ai/'' ''http://localhost:9222''")
  case (Pair r t)
  have "tts_calls t = []"
    using tts_calls_navigate [of s "''https://www.perplexity.ai/''" the_content_selector
        "''http://localhost:9222''" 5000 "Some the_click_selector"] Pair
    by (simp add: navigate_with_specific_selectors_def)
  with assms Pair show ?thesis
    by (simp add: main_body_cases tts_calls_append)
qed

lemma main_tts_calls:
  assumes "connect_result test_session = None"
    and "goto_result test_session Page ''https://example.com'' = None"
  shows "tts_calls (snd (main test_session s synth)) = tts_calls (snd (main_body s synth))"
  by (cases "fst (main_body s synth)")
     (simp_all add: main_cases assms tts_calls_append tts_calls_test)

section \<open>The ordered content extractor\<close>

text \<open>
  C2. When the query on the container returns \<open>all_children\<close> (N elements, in document
  order), of which M have a non-empty stripped inner text, the extractor returns
  exactly those M elements as items, in the order of \<open>all_children\<close>, each with its
  stripped text; M is at most N, no item has an empty text, and a container without
  matching elements gives the empty list and a successful result, not an error.
\<close>

theorem extractor_keeps_nonempty_in_order:
  "collect_content all_children =
     map (\<lambda>el. \<lparr>tag = toLowerCase (tagName el), text' = strip (inner_text el)\<rparr>)
       (filter (\<lambda>el. strip (inner_text el) \<noteq> []) all_children)
   \<and> length (collect_content all_children) =
       length (filter (\<lambda>el. strip (inner_text el) \<noteq> []) all_children)
   \<and> length (collect_content all_children) \<le> length all_children
   \<and> (\<forall>item \<in> set (collect_content all_children). text' item \<noteq> [])
   \<and> collect_content [] = []
   \<and> fst (build_result s initial href []) =
       Inr \<lparr>initial_url = initial, target_url = href, final_url = new_page_url s,
            title = new_page_title s, content = [], full_text = []\<rparr>"
proof -
  have "collect_content [] = []"
    by (simp add: collect_content_def)
  moreover have "fst (build_result s initial href []) =
       Inr \<lparr>initial_url = initial, target_url = href, final_url = new_page_url s,
            title = new_page_title s, content = [], full_text = []\<rparr>"
    by (simp add: build_result_def collect_content_def make_full_text_def)
  moreover have "\<forall>item \<in> set (collect_content all_children). text' item \<noteq> []"
    by (auto simp add: collect_content_eq)
  ultimately show ?thesis
    by (simp add: collect_content_eq)
qed

text \<open>The scenario of the specification: three elements, the blank paragraph dropped.\<close>

theorem extractor_keeps_nonempty_in_order_witness:
  "collect_content sample_elements =
     [\<lparr>tag = ''h2'', text' = ''Title''\<rparr>, \<lparr>tag = ''p'', text' = ''Body text''\<rparr>]
   \<and> length (filter (\<lambda>el. strip (inner_text el) \<noteq> []) sample_elements) = 2
   \<and> length sample_elements = 3"
proof -
  have e: "collect_content sample_elements =
     [\<lparr>tag = ''h2'', text' = ''Title''\<rparr>, \<lparr>tag = ''p'', text' = ''Body text''\<rparr>]"
    by code_simp
  have n: "length sample_elements = 3"
    by (simp add: sample_elements_def)
  from extractor_keeps_nonempty_in_order [of sample_elements sample_session "[]" "[]"]
  have "length (collect_content sample_elements) =
       length (filter (\<lambda>el. strip (inner_text el) \<noteq> []) sample_elements)"
    by blast
  with e n show ?thesis by simp
qed

text \<open>
  C8. The tag of every item is the \<open>tagName\<close> of its element in lower case: the
  tags of the result are the lower-cased tag names of the elements kept, no tag holds
  an upper-case letter A to Z, and an element reported as \<open>P\<close> or as \<open>p\<close> gives the
  tag \<open>p\<close>.
\<close>

theorem tag_is_lower_case:
  "map tag (collect_content all_children) =
     map (\<lambda>el. toLowerCase (tagName el))
       (filter (\<lambda>el. strip (inner_text el) \<noteq> []) all_children)
   \<and> (\<forall>item \<in> set (collect_content all_children). \<forall>c \<in> set (tag item). \<not> is_upper_ascii c)
   \<and> (strip (inner_text el) \<noteq> [] \<longrightarrow>
        collect_content [el\<lparr>tagName := ''P''\<rparr>] = [\<lparr>tag = ''p'', text' = strip (inner_text el)\<rparr>]
      \<and> collect_content [el\<lparr>tagName := ''p''\<rparr>] = [\<lparr>tag = ''p'', text' = strip (inner_text el)\<rparr>])"
proof -
  have l: "toLowerCase ''P'' = ''p''" "toLowerCase ''p'' = ''p''"
    by code_simp+
  have "\<forall>item \<in> set (collect_content all_children). \<forall>c \<in> set (tag item). \<not> is_upper_ascii c"
    by (auto simp add: collect_content_eq toLowerCase_def lower_char_not_upper)
  then show ?thesis
    by (simp add: collect_content_eq l comp_def)
qed

text \<open>The tags of the scenario, and a paragraph in both spellings.\<close>

theorem tag_is_lower_case_witness:
  "map tag (collect_content sample_elements) = [''h2'', ''p'']
   \<and> collect_content [\<lparr>handle = 3, tagName = ''P'', inner_text = ''Body text''\<rparr>]
       = [\<lparr>tag = ''p'', text' = ''Body text''\<rparr>]
   \<and> collect_content [\<lparr>handle = 3, tagName = ''p'', inner_text = ''Body text''\<rparr>]
       = [\<lparr>tag = ''p'', text' = ''Body text''\<rparr>]"
proof -
  have t: "map (\<lambda>el. toLowerCase (tagName el))
       (filter (\<lambda>el. strip (inner_text el) \<noteq> []) sample_elements) = [''h2'', ''p'']"
    by code_simp
  have b: "strip ''Body text'' = ''Body text''"
    by code_simp
  from tag_is_lower_case [of sample_elements "\<lparr>handle = 3, tagName = ''P'', inner_text = ''Body text''\<rparr>"]
  show ?thesis
    by (simp add: t b)
qed

text \<open>
  C9. The extractor is deterministic in the tags and texts of the matched elements:
  two queries that return the same sequence of tag names and inner texts, through
  whatever handle objects, give the same sequence of items.
\<close>

theorem extractor_deterministic:
  "map (\<lambda>el. (tagName el, inner_text el)) els1 = map (\<lambda>el. (tagName el, inner_text el)) els2
   \<Longrightarrow> collect_content els1 = collect_content els2"
proof (induction els1 arbitrary: els2)
  case Nil
  then show ?case by simp
next
  case (Cons a els1)
  then obtain b rest where els2: "els2 = b # rest"
    by (cases els2) auto
  with Cons.prems have h: "tagName a = tagName b" "inner_text a = inner_text b"
    and r: "map (\<lambda>el. (tagName el, inner_text el)) els1 = map (\<lambda>el. (tagName el, inner_text el)) rest"
    by simp_all
  from Cons.IH [OF r] have "collect_content els1 = collect_content rest" .
  with h els2 show ?case
    by (simp add: collect_content_eq)
qed

text \<open>The scenario's container queried twice, with new handles the second time.\<close>

theorem extractor_deterministic_witness:
  "collect_content sample_elements = collect_content (map (\<lambda>el. el\<lparr>handle := handle el + 10\<rparr>) sample_elements)
   \<and> sample_elements \<noteq> map (\<lambda>el. el\<lparr>handle := handle el + 10\<rparr>) sample_elements"
proof -
  have "map (\<lambda>el. (tagName el, inner_text el)) sample_elements =
        map (\<lambda>el. (tagName el, inner_text el)) (map (\<lambda>el. el\<lparr>handle := handle el + 10\<rparr>) sample_elements)"
    by (simp add: sample_elements_def)
  from extractor_deterministic [OF this]
  show ?thesis by (simp add: sample_elements_def)
qed

section \<open>The synthesis sink\<close>

text \<open>
  C7. A call of the synthesis sink makes exactly one call to the model, with the
  whole text unchanged, whatever its length, and with sentence splitting switched
  off; what the model raises is raised by the sink.
\<close>

theorem synthesis_single_unsplit_call:
  "generate_audio_file synth text output_file =
     ((case synth text of None \<Rightarrow> Inr () | Some m \<Rightarrow> Inl (ExternalError m)),
      [Stdout (Content_to_be_converted text), Tts_to_file text output_file False])
   \<and> tts_calls (snd (generate_audio_file synth text output_file)) = [(text, output_file, False)]"
  by (simp add: generate_audio_file_def io_bind_pair emit_def call_def split: option.splits)

text \<open>One call for the text of the scenario.\<close>

theorem synthesis_single_unsplit_call_witness:
  "tts_calls (snd (generate_audio_file sample_synth ''TitleBody text'' ''content.wav'')) =
     [(''TitleBody text'', ''content.wav'', False)]
   \<and> fst (generate_audio_file sample_synth ''TitleBody text'' ''content.wav'') = Inr ()"
  using synthesis_single_unsplit_call [of sample_synth "''TitleBody text''" "''content.wav''"]
  by (simp add: sample_synth_def)

section \<open>The steps of the navigation sequencer\<close>

text \<open>
  C6. With a (non-empty) click selector the step never raises: it first waits for
  the selector with the timeout \<open>wait_time\<close>; when the element is found and the click
  succeeds it clicks and pauses 2000 ms; when the wait times out, the element is
  absent or the click fails it prints a warning; and in a run whose connection and
  first navigation succeeded the sequencer goes on to the link resolution right
  after the step.
\<close>

theorem click_step_is_not_fatal:
  assumes "sel \<noteq> []"
  shows "fst (click_step s (Some sel) w) = Inr ()
    \<and> take 2 (snd (click_step s (Some sel) w)) =
        [Stdout (Clicking_element sel), Wait_for_selector Page sel w]
    \<and> (wait_for_selector_result s Page sel = None \<and> click_element s sel \<and> click_result s = None
        \<longrightarrow> snd (click_step s (Some sel) w) =
            [Stdout (Clicking_element sel), Wait_for_selector Page sel w,
             Query_selector Page sel, Click sel, Stdout Element_clicked,
             Wait_for_timeout Page 2000])
    \<and> (\<forall>m. wait_for_selector_result s Page sel = Some m
        \<longrightarrow> snd (click_step s (Some sel) w) =
            [Stdout (Clicking_element sel), Wait_for_selector Page sel w,
             Stdout (Warning_could_not_click (ExternalError m))])
    \<and> (wait_for_selector_result s Page sel = None \<and> \<not> click_element s sel
        \<longrightarrow> snd (click_step s (Some sel) w) =
            [Stdout (Clicking_element sel), Wait_for_selector Page sel w,
             Query_selector Page sel, Stdout Warning_click_not_found])
    \<and> (\<forall>m. wait_for_selector_result s Page sel = None \<and> click_element s sel
            \<and> click_result s = Some m
        \<longrightarrow> snd (click_step s (Some sel) w) =
            [Stdout (Clicking_element sel), Wait_for_selector Page sel w,
             Query_selector Page sel, Click sel,
             Stdout (Warning_could_not_click (ExternalError m))])
    \<and> (connect_result s = None \<and> goto_result s Page initial = None
        \<longrightarrow> (\<exists>pre post.
              snd (navigate_and_extract_content s initial content_selector cdp w (Some sel)) =
              pre @ snd (click_step s (Some sel) w) @ [Stdout Getting_link, Evaluate_href] @ post))"
proof -
  have continues: "\<exists>pre post.
      snd (navigate_and_extract_content s initial content_selector cdp w (Some sel)) =
      pre @ snd (click_step s (Some sel) w) @ [Stdout Getting_link, Evaluate_href] @ post"
    if ok: "connect_result s = None" "goto_result s Page initial = None"
  proof -
    obtain r t where "resolve_link s = (r, Stdout Getting_link # Evaluate_href # t)"
      using resolve_link_trace by blast
    from io_bind_trace_prefix [OF this]
    obtain post where post: "snd (io_bind (resolve_link s) (\<lambda>href.
        io_bind (open_container s href content_selector w) (build_result s initial href))) =
        [Stdout Getting_link, Evaluate_href] @ post"
      by blast
    have "snd (navigate_and_extract_content s initial content_selector cdp w (Some sel)) =
        (Connect_over_cdp cdp # (if context_pages s then [] else [Context_new_page])
          @ [Stdout (Navigating_to initial), Goto Page initial ''domcontentloaded'' (Some 60000),
             Wait_for_timeout Page w])
        @ snd (click_step s (Some sel) w) @ [Stdout Getting_link, Evaluate_href]
        @ (post @ [Browser_close])"
      unfolding navigate_unfold [OF ok] snd_conv post by simp
    then show ?thesis by blast
  qed
  have never: "fst (click_step s (Some sel) w) = Inr ()"
    by (rule click_step_never_raises)
  have waits: "take 2 (snd (click_step s (Some sel) w)) =
        [Stdout (Clicking_element sel), Wait_for_selector Page sel w]"
    using assms by (simp add: click_step_cases split: option.splits)
  have clicked: "snd (click_step s (Some sel) w) =
            [Stdout (Clicking_element sel), Wait_for_selector Page sel w,
             Query_selector Page sel, Click sel, Stdout Element_clicked,
             Wait_for_timeout Page 2000]"
    if "wait_for_selector_result s Page sel = None \<and> click_element s sel \<and> click_result s = None"
    using assms that by (simp add: click_step_cases)
  have timed_out: "snd (click_step s (Some sel) w) =
            [Stdout (Clicking_element sel), Wait_for_selector Page sel w,
             Stdout (Warning_could_not_click (ExternalError m))]"
    if "wait_for_selector_result s Page sel = Some m" for m
    using assms that by (simp add: click_step_cases)
  have absent: "snd (click_step s (Some sel) w) =
            [Stdout (Clicking_element sel), Wait_for_selector Page sel w,
             Query_selector Page sel, Stdout Warning_click_not_found]"
    if "wait_for_selector_result s Page sel = None \<and> \<not> click_element s sel"
    using assms that by (simp add: click_step_cases)
  have click_failed: "snd (click_step s (Some sel) w) =
            [Stdout (Clicking_element sel), Wait_for_selector Page sel w,
             Query_selector Page sel, Click sel,
             Stdout (Warning_could_not_click (ExternalError m))]"
    if "wait_for_selector_result s Page sel = None \<and> click_element s sel
            \<and> click_result s = Some m" for m
    using assms that by (simp add: click_step_cases)
  show ?thesis
  proof (intro conjI allI impI)
    show "fst (click_step s (Some sel) w) = Inr ()"
      by (rule never)
  qed (fact waits, erule clicked, erule timed_out, erule absent, erule click_failed,
       erule conjE, erule (1) continues)
qed

text \<open>The click selector of the program, once with a wait that times out, once found.\<close>

theorem click_step_is_not_fatal_witness:
  "the_click_selector \<noteq> []
   \<and> fst (click_step
        (sample_session\<lparr>wait_for_selector_result := (\<lambda>t sel. Some ''Timeout 5000ms exceeded.'')\<rparr>)
        (Some the_click_selector) 5000) = Inr ()
   \<and> snd (click_step
        (sample_session\<lparr>wait_for_selector_result := (\<lambda>t sel. Some ''Timeout 5000ms exceeded.'')\<rparr>)
        (Some the_click_selector) 5000) =
       [Stdout (Clicking_element the_click_selector),
        Wait_for_selector Page the_click_selector 5000,
        Stdout (Warning_could_not_click (ExternalError ''Timeout 5000ms exceeded.''))]
   \<and> snd (click_step sample_session (Some the_click_selector) 5000) =
       [Stdout (Clicking_element the_click_selector),
        Wait_for_selector Page the_click_selector 5000,
        Query_selector Page the_click_selector, Click the_click_selector,
        Stdout Element_clicked, Wait_for_timeout Page 2000]"
proof -
  have ne: "the_click_selector \<noteq> []"
    by (simp add: the_click_selector_def)
  from click_step_is_not_fatal [OF ne,
      of "sample_session\<lparr>wait_for_selector_result := (\<lambda>t sel. Some ''Timeout 5000ms exceeded.'')\<rparr>"
         5000 "''https://www.perplexity.ai/''" the_content_selector "''http://localhost:9222''"]
    click_step_is_not_fatal [OF ne,
      of sample_session 5000 "''https://www.perplexity.ai/''" the_content_selector
         "''http://localhost:9222''"]
    ne
  show ?thesis
    by (simp add: sample_session_def)
qed

text \<open>
  C3. When no element has the class marker, or the first such element has no
  descendant anchor with an \<open>href\<close>, the sequencer raises the exception whose message
  names the marker; the extractor's query is never made and the speech model never
  called, and the program exits with status 1 without an audio file.
\<close>

theorem missing_link_is_fatal:
  assumes "connect_result s = None" and "goto_result s Page initial = None"
    and "marker_elements s = []
         \<or> (\<exists>element rest. marker_elements s = element # rest \<and> (\<forall>href \<in> set element. href = []))"
  shows "fst (navigate_and_extract_content s initial sel cdp w click) =
       Inl (Exception
         ''Could not find element with class 'group/notification-list-item' or its child anchor tag'')
    \<and> sublist class_marker
         ''Could not find element with class 'group/notification-list-item' or its child anchor tag''
    \<and> (\<forall>q. Query_selector_all q \<notin> set (snd (navigate_and_extract_content s initial sel cdp w click)))
    \<and> tts_calls (snd (navigate_and_extract_content s initial sel cdp w click)) = []
    \<and> (initial = ''https://www.perplexity.ai/'' \<longrightarrow>
         fst (main test_session s synth) = Inl (SystemExit 1)
       \<and> exit_code (main test_session s synth) = 1
       \<and> tts_calls (snd (main test_session s synth)) = [])"
proof -
  let ?msg = "''Could not find element with class 'group/notification-list-item' or its child anchor tag''"
  from assms(3) have href: "evaluate_href s = None \<or> evaluate_href s = Some []"
    by (auto simp add: evaluate_href_def split: list.splits)
  have rest: "io_bind (resolve_link s) f =
      (Inl (Exception ?msg),
       [Stdout Getting_link, Evaluate_href, Stdout (Debug_no_anchor (page_title s) (page_url s)),
        Evaluate_count, Stdout (Found_count (length (marker_elements s)))])" for f :: "string \<Rightarrow> extraction_result io"
    by (simp add: resolve_link_missing [OF href] io_bind_pair)
  have fails: "fst (navigate_and_extract_content s initial sel' cdp' w' click') = Inl (Exception ?msg)"
    for sel' cdp' w' click'
    by (simp add: navigate_unfold [OF assms(1,2)] rest)
  have no_query: "Query_selector_all q \<notin> set (snd (navigate_and_extract_content s initial sel cdp w click))"
    for q
    by (simp add: navigate_unfold [OF assms(1,2)] rest click_step_no_query_all)
  have split_msg: "?msg = (''Could not find element with class '' @ [CHR 0x27]) @ class_marker
      @ ([CHR 0x27] @ '' or its child anchor tag'')"
    by (simp add: class_marker_def)
  have names: "sublist class_marker ?msg"
    unfolding sublist_def
    by (rule exI [of _ "''Could not find element with class '' @ [CHR 0x27]"],
        rule exI [of _ "[CHR 0x27] @ '' or its child anchor tag''"], rule split_msg)
  have main: "fst (main test_session s synth) = Inl (SystemExit 1)
       \<and> exit_code (main test_session s synth) = 1
       \<and> tts_calls (snd (main test_session s synth)) = []"
    if "initial = ''https://www.perplexity.ai/''"
  proof -
    from that fails
    have "fst (navigate_with_specific_selectors s ''https://www.perplexity.ai/'' ''http://localhost:9222'')
        = Inl (Exception ?msg)"
      by (simp add: navigate_with_specific_selectors_def)
    then have body: "main_body s synth =
        (Inl (Exception ?msg),
         snd (navigate_with_specific_selectors s ''https://www.perplexity.ai/'' ''http://localhost:9222''))"
      by (cases "navigate_with_specific_selectors s ''https://www.perplexity.ai/''
            ''http://localhost:9222''") (simp add: main_body_cases)
    show ?thesis
      by (simp add: main_cases body exit_code_def tts_calls_append tts_calls_test
            navigate_with_specific_selectors_def tts_calls_navigate)
  qed
  from fails no_query names main show ?thesis
    by (simp add: tts_calls_navigate)
qed

text \<open>A page without the marker, and a page whose marked element has an anchor without link.\<close>

theorem missing_link_is_fatal_witness:
  "fst (navigate_and_extract_content (sample_session\<lparr>marker_elements := []\<rparr>)
         ''https://www.perplexity.ai/'' the_content_selector ''http://localhost:9222'' 5000
         (Some the_click_selector)) =
     Inl (Exception
       ''Could not find element with class 'group/notification-list-item' or its child anchor tag'')
   \<and> exit_code (main sample_session (sample_session\<lparr>marker_elements := []\<rparr>) sample_synth) = 1
   \<and> tts_calls (snd (main sample_session (sample_session\<lparr>marker_elements := []\<rparr>) sample_synth)) = []
   \<and> fst (navigate_and_extract_content (sample_session\<lparr>marker_elements := [['''']]\<rparr>)
         ''https://www.perplexity.ai/'' the_content_selector ''http://localhost:9222'' 5000
         (Some the_click_selector)) =
     Inl (Exception
       ''Could not find element with class 'group/notification-list-item' or its child anchor tag'')"
proof -
  have a: "connect_result (sample_session\<lparr>marker_elements := m\<rparr>) = None" for m
    by (simp add: sample_session_def)
  have b: "goto_result (sample_session\<lparr>marker_elements := m\<rparr>) Page ''https://www.perplexity.ai/'' = None" for m
    by (simp add: sample_session_def)
  have c: "marker_elements (sample_session\<lparr>marker_elements := []\<rparr>) = []
         \<or> (\<exists>element rest. marker_elements (sample_session\<lparr>marker_elements := []\<rparr>) = element # rest
              \<and> (\<forall>href \<in> set element. href = []))"
    by simp
  have d: "marker_elements (sample_session\<lparr>marker_elements := [['''']]\<rparr>) = []
         \<or> (\<exists>element rest. marker_elements (sample_session\<lparr>marker_elements := [['''']]\<rparr>) = element # rest
              \<and> (\<forall>href \<in> set element. href = []))"
    by simp
  from missing_link_is_fatal [OF a b c, of the_content_selector "''http://localhost:9222''" 5000
      "Some the_click_selector" sample_session sample_synth]
    missing_link_is_fatal [OF a b d, of the_content_selector "''http://localhost:9222''" 5000
      "Some the_click_selector" sample_session sample_synth]
  show ?thesis
    by simp
qed

text \<open>
  C4. In a run that reached the new tab, an exception of the wait for the content
  selector is only reported: the container is resolved right after the wait (and the
  warning, if any), and the run raises, with the message naming the selector and no
  result, exactly when the container is absent; otherwise it returns the result.
\<close>

theorem missing_container_is_fatal:
  assumes "connect_result s = None" and "goto_result s Page initial = None"
    and "evaluate_href s = Some href" and "href \<noteq> []"
    and "goto_result s New_page href = None"
  shows "fst (navigate_and_extract_content s initial sel cdp w click) =
       (case content_container s sel of
          None \<Rightarrow> Inl (Exception (''Could not find content element with selector: '' @ sel))
        | Some all_children \<Rightarrow>
            Inr \<lparr>initial_url = initial, target_url = href, final_url = new_page_url s,
                 title = new_page_title s, content = collect_content all_children,
                 full_text = make_full_text (collect_content all_children)\<rparr>)
    \<and> ((fst (navigate_and_extract_content s initial sel cdp w click) =
          Inl (Exception (''Could not find content element with selector: '' @ sel)))
        = (content_container s sel = None))
    \<and> ((\<exists>e. fst (navigate_and_extract_content s initial sel cdp w click) = Inl e)
        = (content_container s sel = None))
    \<and> sublist
        ([Wait_for_selector New_page sel w]
         @ (case wait_for_selector_result s New_page sel of
              None \<Rightarrow> [] | Some m \<Rightarrow> [Stdout (Warning_content_not_found w)])
         @ [Query_selector New_page sel])
        (snd (navigate_and_extract_content s initial sel cdp w click))"
proof -
  let ?open = "open_container s href sel w"
  let ?wait = "[Wait_for_selector New_page sel w]
         @ (case wait_for_selector_result s New_page sel of
              None \<Rightarrow> [] | Some m \<Rightarrow> [Stdout (Warning_content_not_found w)])
         @ [Query_selector New_page sel]"
  have rest: "io_bind (resolve_link s) (\<lambda>href.
        io_bind (open_container s href sel w) (build_result s initial href)) =
      (fst (io_bind ?open (build_result s initial href)),
       [Stdout Getting_link, Evaluate_href, Stdout (Found_link href)]
       @ snd (io_bind ?open (build_result s initial href)))"
    by (simp add: resolve_link_found [OF assms(3,4)] io_bind_pair)
  obtain post where trace: "snd (io_bind ?open (build_result s initial href)) =
      [Context_new_page, Stdout (Opening_new_tab href),
       Goto New_page href ''domcontentloaded'' (Some 60000), Wait_for_timeout New_page w,
       Stdout (Extracting_content sel)] @ ?wait @ post"
    by (cases "content_container s sel")
       (simp_all add: open_container_cases [OF assms(5)] io_bind_pair)
  have outcome: "fst (navigate_and_extract_content s initial sel cdp w click) =
       (case content_container s sel of
          None \<Rightarrow> Inl (Exception (''Could not find content element with selector: '' @ sel))
        | Some all_children \<Rightarrow>
            Inr \<lparr>initial_url = initial, target_url = href, final_url = new_page_url s,
                 title = new_page_title s, content = collect_content all_children,
                 full_text = make_full_text (collect_content all_children)\<rparr>)"
    by (rule navigate_outcome [OF assms])
  have "snd (navigate_and_extract_content s initial sel cdp w click) =
      (Connect_over_cdp cdp # (if context_pages s then [] else [Context_new_page])
       @ [Stdout (Navigating_to initial), Goto Page initial ''domcontentloaded'' (Some 60000),
          Wait_for_timeout Page w]
       @ snd (click_step s click w)
       @ [Stdout Getting_link, Evaluate_href, Stdout (Found_link href)]
       @ [Context_new_page, Stdout (Opening_new_tab href),
          Goto New_page href ''domcontentloaded'' (Some 60000), Wait_for_timeout New_page w,
          Stdout (Extracting_content sel)])
      @ ?wait @ (post @ [Browser_close])"
    by (simp add: navigate_unfold [OF assms(1,2)] rest trace)
  then have waited: "sublist ?wait (snd (navigate_and_extract_content s initial sel cdp w click))"
    unfolding sublist_def by blast
  from outcome have iff: "(fst (navigate_and_extract_content s initial sel cdp w click) =
          Inl (Exception (''Could not find content element with selector: '' @ sel)))
        = (content_container s sel = None)"
    by (simp split: option.splits)
  from outcome have iff': "(\<exists>e. fst (navigate_and_extract_content s initial sel cdp w click) = Inl e)
        = (content_container s sel = None)"
    by (simp split: option.splits)
  from outcome iff iff' waited show ?thesis
    by (intro conjI)
qed

text \<open>
  A wait that times out: with the container absent the run fails, with the container
  present it returns the items of the scenario.
\<close>

theorem missing_container_is_fatal_witness:
  "fst (navigate_and_extract_content
         (sample_session\<lparr>wait_for_selector_result := (\<lambda>t sel. Some ''Timeout 5000ms exceeded.''),
                          content_container := (\<lambda>sel. None)\<rparr>)
         ''https://www.perplexity.ai/'' the_content_selector ''http://localhost:9222'' 5000 None) =
     Inl (Exception (''Could not find content element with selector: '' @ the_content_selector))
   \<and> sublist
        [Wait_for_selector New_page the_content_selector 5000,
         Stdout (Warning_content_not_found 5000),
         Query_selector New_page the_content_selector]
        (snd (navigate_and_extract_content
         (sample_session\<lparr>wait_for_selector_result := (\<lambda>t sel. Some ''Timeout 5000ms exceeded.''),
                          content_container := (\<lambda>sel. None)\<rparr>)
         ''https://www.perplexity.ai/'' the_content_selector ''http://localhost:9222'' 5000 None))
   \<and> fst (navigate_and_extract_content
         (sample_session\<lparr>wait_for_selector_result := (\<lambda>t sel. Some ''Timeout 5000ms exceeded.'')\<rparr>)
         ''https://www.perplexity.ai/'' the_content_selector ''http://localhost:9222'' 5000 None) =
     Inr \<lparr>initial_url = ''https://www.perplexity.ai/'',
          target_url = ''https://www.perplexity.ai/page/1'',
          final_url = ''https://www.perplexity.ai/page/1'',
          title = ''Article'',
          content = [\<lparr>tag = ''h2'', text' = ''Title''\<rparr>, \<lparr>tag = ''p'', text' = ''Body text''\<rparr>],
          full_text = ''Title'' @ [CHR 0x0A, CHR 0x0A] @ ''Body text''\<rparr>"
proof -
  let ?absent = "sample_session\<lparr>wait_for_selector_result := (\<lambda>t sel. Some ''Timeout 5000ms exceeded.''),
                          content_container := (\<lambda>sel. None)\<rparr>"
  let ?late = "sample_session\<lparr>wait_for_selector_result := (\<lambda>t sel. Some ''Timeout 5000ms exceeded.'')\<rparr>"
  have items: "collect_content sample_elements =
      [\<lparr>tag = ''h2'', text' = ''Title''\<rparr>, \<lparr>tag = ''p'', text' = ''Body text''\<rparr>]"
    by code_simp
  have a: "connect_result ?absent = None" "goto_result ?absent Page ''https://www.perplexity.ai/'' = None"
    "evaluate_href ?absent = Some ''https://www.perplexity.ai/page/1''"
    "''https://www.perplexity.ai/page/1'' \<noteq> []"
    "goto_result ?absent New_page ''https://www.perplexity.ai/page/1'' = None"
    by (simp_all add: sample_session_def evaluate_href_def)
  have l: "connect_result ?late = None" "goto_result ?late Page ''https://www.perplexity.ai/'' = None"
    "evaluate_href ?late = Some ''https://www.perplexity.ai/page/1''"
    "''https://www.perplexity.ai/page/1'' \<noteq> []"
    "goto_result ?late New_page ''https://www.perplexity.ai/page/1'' = None"
    by (simp_all add: sample_session_def evaluate_href_def)
  from missing_container_is_fatal [OF a, of the_content_selector "''http://localhost:9222''" 5000 None]
    missing_container_is_fatal [OF l, of the_content_selector "''http://localhost:9222''" 5000 None]
  show ?thesis
    by (simp add: sample_session_def items make_full_text_def)
qed

section \<open>The program as a whole\<close>

text \<open>
  C5. The program begins with the connection test, whose only navigation is to
  \<open>https://example.com\<close>; when the test fails it prints the instructions and exits
  with status 1; otherwise it runs the sequencer on \<open>https://www.perplexity.ai/\<close> and
  either ends with status 0 after one call of the model for \<open>content.wav\<close>, or prints
  the error and exits with status 1.
\<close>

theorem main_exit_codes:
  "fst (test_cdp_connection test_session ''http://localhost:9222'') =
     Inr (connect_result test_session = None
          \<and> goto_result test_session Page ''https://example.com'' = None)
   \<and> (\<forall>t url wait_until timeout.
        Goto t url wait_until timeout \<in> set (snd (test_cdp_connection test_session ''http://localhost:9222''))
        \<longrightarrow> url = ''https://example.com'')
   \<and> (\<exists>rest. snd (main test_session s synth) =
        [Stdout Banner, Stdout Testing_cdp]
        @ snd (test_cdp_connection test_session ''http://localhost:9222'') @ rest)
   \<and> (fst (test_cdp_connection test_session ''http://localhost:9222'') = Inr False \<longrightarrow>
        fst (main test_session s synth) = Inl (SystemExit 1)
      \<and> exit_code (main test_session s synth) = 1
      \<and> snd (main test_session s synth) =
          [Stdout Banner, Stdout Testing_cdp]
          @ snd (test_cdp_connection test_session ''http://localhost:9222'')
          @ [Stdout Please_ensure])
   \<and> (fst (test_cdp_connection test_session ''http://localhost:9222'') = Inr True \<longrightarrow>
        (case fst (main_body s synth) of
           Inr u \<Rightarrow>
             exit_code (main test_session s synth) = 0
           \<and> (\<exists>text. tts_calls (snd (main test_session s synth)) = [(text, ''content.wav'', False)])
           \<and> snd (main test_session s synth) =
               [Stdout Banner, Stdout Testing_cdp]
               @ snd (test_cdp_connection test_session ''http://localhost:9222'')
               @ [Stdout Starting_main] @ snd (main_body s synth)
         | Inl e \<Rightarrow>
             exit_code (main test_session s synth) = 1
           \<and> snd (main test_session s synth) =
               [Stdout Banner, Stdout Testing_cdp]
               @ snd (test_cdp_connection test_session ''http://localhost:9222'')
               @ [Stdout Starting_main] @ snd (main_body s synth)
               @ [Stdout (Error_during_scraping e)]))
   \<and> (\<exists>rest. snd (main_body s synth) =
        snd (navigate_and_extract_content s ''https://www.perplexity.ai/'' the_content_selector
               ''http://localhost:9222'' 5000 (Some the_click_selector)) @ rest)"
proof -
  let ?T = "test_cdp_connection test_session ''http://localhost:9222''"
  let ?N = "navigate_and_extract_content s ''https://www.perplexity.ai/'' the_content_selector
               ''http://localhost:9222'' 5000 (Some the_click_selector)"
  have tested: "fst ?T = Inr (connect_result test_session = None
          \<and> goto_result test_session Page ''https://example.com'' = None)"
    by (simp add: test_cdp_connection_cases)
  have example: "\<forall>t url wait_until timeout.
        Goto t url wait_until timeout \<in> set (snd ?T) \<longrightarrow> url = ''https://example.com''"
    by (auto simp add: test_cdp_connection_cases split: option.splits if_splits)
  have first: "\<exists>rest. snd (main test_session s synth) =
        [Stdout Banner, Stdout Testing_cdp] @ snd ?T @ rest"
    by (cases "fst (main_body s synth)") (simp_all add: main_cases)
  have failed: "fst (main test_session s synth) = Inl (SystemExit 1)
      \<and> exit_code (main test_session s synth) = 1
      \<and> snd (main test_session s synth) =
          [Stdout Banner, Stdout Testing_cdp] @ snd ?T @ [Stdout Please_ensure]"
    if "fst ?T = Inr False"
  proof -
    from that have no: "\<not> (connect_result test_session = None
          \<and> goto_result test_session Page ''https://example.com'' = None)"
      unfolding tested by simp
    have "main test_session s synth =
        (Inl (SystemExit 1), [Stdout Banner, Stdout Testing_cdp] @ snd ?T @ [Stdout Please_ensure])"
      by (subst main_cases) (simp only: no if_False)
    then show ?thesis
      by (simp add: exit_code_def)
  qed
  have body: "\<exists>rest. snd (main_body s synth) = snd ?N @ rest"
    by (cases ?N; cases "fst ?N")
       (simp_all add: main_body_cases navigate_with_specific_selectors_def)
  have passed: "(case fst (main_body s synth) of
           Inr u \<Rightarrow>
             exit_code (main test_session s synth) = 0
           \<and> (\<exists>text. tts_calls (snd (main test_session s synth)) = [(text, ''content.wav'', False)])
           \<and> snd (main test_session s synth) =
               [Stdout Banner, Stdout Testing_cdp] @ snd ?T
               @ [Stdout Starting_main] @ snd (main_body s synth)
         | Inl e \<Rightarrow>
             exit_code (main test_session s synth) = 1
           \<and> snd (main test_session s synth) =
               [Stdout Banner, Stdout Testing_cdp] @ snd ?T
               @ [Stdout Starting_main] @ snd (main_body s synth)
               @ [Stdout (Error_during_scraping e)])"
    if ok: "fst ?T = Inr True"
  proof (cases "fst (main_body s synth)")
    case (Inl e)
    with ok show ?thesis
      by (simp add: tested main_cases exit_code_def)
  next
    case (Inr u)
    have "\<exists>text. tts_calls (snd (main_body s synth)) = [(text, ''content.wav'', False)]"
    proof (cases ?N)
      case (Pair r t)
      have t: "tts_calls t = []"
        using tts_calls_navigate [of s "''https://www.perplexity.ai/''" the_content_selector
               "''http://localhost:9222''" 5000 "Some the_click_selector"] Pair by simp
      from Inr Pair show ?thesis
        by (cases r)
           (simp_all add: main_body_cases navigate_with_specific_selectors_def tts_calls_append t)
    qed
    with ok Inr show ?thesis
      by (simp add: tested main_cases exit_code_def tts_calls_append tts_calls_test)
  qed
  from failed passed have branches:
    "fst ?T = Inr False \<longrightarrow>
        fst (main test_session s synth) = Inl (SystemExit 1)
      \<and> exit_code (main test_session s synth) = 1
      \<and> snd (main test_session s synth) =
          [Stdout Banner, Stdout Testing_cdp] @ snd ?T @ [Stdout Please_ensure]"
    "fst ?T = Inr True \<longrightarrow>
        (case fst (main_body s synth) of
           Inr u \<Rightarrow>
             exit_code (main test_session s synth) = 0
           \<and> (\<exists>text. tts_calls (snd (main test_session s synth)) = [(text, ''content.wav'', False)])
           \<and> snd (main test_session s synth) =
               [Stdout Banner, Stdout Testing_cdp] @ snd ?T
               @ [Stdout Starting_main] @ snd (main_body s synth)
         | Inl e \<Rightarrow>
             exit_code (main test_session s synth) = 1
           \<and> snd (main test_session s synth) =
               [Stdout Banner, Stdout Testing_cdp] @ snd ?T
               @ [Stdout Starting_main] @ snd (main_body s synth)
               @ [Stdout (Error_during_scraping e)])"
    by blast+
  show ?thesis
    by (rule conjI [OF tested conjI [OF example conjI [OF first
          conjI [OF branches(1) conjI [OF branches(2) body]]]]])
qed

text \<open>A successful run, a run without browser, and a run whose scraping task fails.\<close>

theorem main_exit_codes_witness:
  "exit_code (main sample_session sample_session sample_synth) = 0
   \<and> tts_calls (snd (main sample_session sample_session sample_synth)) =
       [(''TitleBody text'', ''content.wav'', False)]
   \<and> exit_code (main (sample_session\<lparr>connect_result := Some ''connect ECONNREFUSED''\<rparr>)
        sample_session sample_synth) = 1
   \<and> snd (main (sample_session\<lparr>connect_result := Some ''connect ECONNREFUSED''\<rparr>)
        sample_session sample_synth) =
       [Stdout Banner, Stdout Testing_cdp, Connect_over_cdp ''http://localhost:9222'',
        Stdout (Cdp_failed (ExternalError ''connect ECONNREFUSED'')), Stdout Please_ensure]
   \<and> exit_code (main sample_session (sample_session\<lparr>connect_result := Some ''connect ECONNREFUSED''\<rparr>)
        sample_synth) = 1"
proof -
  let ?down = "sample_session\<lparr>connect_result := Some ''connect ECONNREFUSED''\<rparr>"
  have items: "collect_content sample_elements =
      [\<lparr>tag = ''h2'', text' = ''Title''\<rparr>, \<lparr>tag = ''p'', text' = ''Body text''\<rparr>]"
    by code_simp
  have ok: "connect_result sample_session = None"
    "goto_result sample_session Page ''https://www.perplexity.ai/'' = None"
    "evaluate_href sample_session = Some ''https://www.perplexity.ai/page/1''"
    "''https://www.perplexity.ai/page/1'' \<noteq> []"
    "goto_result sample_session New_page ''https://www.perplexity.ai/page/1'' = None"
    by (simp_all add: sample_session_def evaluate_href_def)
  have nav: "fst (navigate_with_specific_selectors sample_session ''https://www.perplexity.ai/''
        ''http://localhost:9222'') =
      Inr \<lparr>initial_url = ''https://www.perplexity.ai/'',
          target_url = ''https://www.perplexity.ai/page/1'',
          final_url = new_page_url sample_session,
          title = new_page_title sample_session,
          content = collect_content sample_elements,
          full_text = make_full_text (collect_content sample_elements)\<rparr>"
    unfolding navigate_with_specific_selectors_def navigate_outcome [OF ok]
    by (simp add: sample_session_def)
  have body: "fst (main_body sample_session sample_synth) = Inr ()"
    "tts_calls (snd (main_body sample_session sample_synth)) =
       [(''TitleBody text'', ''content.wav'', False)]"
    using main_body_success [OF nav, of sample_synth]
    by (simp_all add: sample_synth_def items reduce_text_eq)
  have down: "fst (main_body ?down sample_synth) = Inl (ExternalError ''connect ECONNREFUSED'')"
    by (simp add: main_body_cases navigate_with_specific_selectors_def
          navigate_connect_fails [of ?down "''connect ECONNREFUSED''"])
  have test_ok: "connect_result sample_session = None
      \<and> goto_result sample_session Page ''https://example.com'' = None"
    by (simp add: sample_session_def)
  have test_down: "snd (test_cdp_connection ?down ''http://localhost:9222'') =
      [Connect_over_cdp ''http://localhost:9222'',
       Stdout (Cdp_failed (ExternalError ''connect ECONNREFUSED''))]"
    by (simp add: test_cdp_connection_cases)
  note run = main_exit_codes [of sample_session sample_session sample_synth]
  note no_browser = main_exit_codes [of ?down sample_session sample_synth]
  note no_pipeline = main_exit_codes [of sample_session ?down sample_synth]
  have passes: "fst (test_cdp_connection sample_session ''http://localhost:9222'') = Inr True"
    using run [THEN conjunct1] test_ok by simp
  have fails: "fst (test_cdp_connection ?down ''http://localhost:9222'') = Inr False"
    using no_browser [THEN conjunct1] by simp
  from run [THEN conjunct2, THEN conjunct2, THEN conjunct2, THEN conjunct2, THEN conjunct1,
      rule_format, OF passes] body(1)
  have one: "exit_code (main sample_session sample_session sample_synth) = 0"
    by simp
  have two: "tts_calls (snd (main sample_session sample_session sample_synth)) =
       [(''TitleBody text'', ''content.wav'', False)]"
    using test_ok by (simp add: main_tts_calls body(2))
  from no_browser [THEN conjunct2, THEN conjunct2, THEN conjunct2, THEN conjunct1,
      rule_format, OF fails]
  have three: "exit_code (main ?down sample_session sample_synth) = 1"
    and four: "snd (main ?down sample_session sample_synth) =
       [Stdout Banner, Stdout Testing_cdp, Connect_over_cdp ''http://localhost:9222'',
        Stdout (Cdp_failed (ExternalError ''connect ECONNREFUSED'')), Stdout Please_ensure]"
    by (simp_all add: test_down)
  from no_pipeline [THEN conjunct2, THEN conjunct2, THEN conjunct2, THEN conjunct2, THEN conjunct1,
      rule_format, OF passes] down
  have five: "exit_code (main sample_session ?down sample_synth) = 1"
    by simp
  from one two three four five show ?thesis
    by (intro conjI)
qed

text \<open>
  C1. The \<open>full_text\<close> of a returned result is its items' texts joined by two line
  feeds, the text that the program passes to the model is their concatenation without
  separator, and with two items or more the two strings differ.
\<close>

theorem full_text_differs_from_synthesis_text:
  assumes "fst (navigate_and_extract_content s initial sel cdp w click) = Inr result"
  shows "full_text result = join [CHR 0x0A, CHR 0x0A] (map text' (content result))
    \<and> reduce_text (content result) = concat (map text' (content result))
    \<and> (\<forall>item \<in> set (content result). text' item \<noteq> [])
    \<and> (2 \<le> length (content result) \<longrightarrow> full_text result \<noteq> reduce_text (content result))
    \<and> (initial = ''https://www.perplexity.ai/'' \<and> sel = the_content_selector
        \<and> cdp = ''http://localhost:9222'' \<and> w = 5000 \<and> click = Some the_click_selector
        \<longrightarrow> tts_calls (snd (main_body s synth)) =
            [(reduce_text (content result), ''content.wav'', False)])"
proof -
  from navigate_result_shape [OF assms] obtain href els where
    result: "result =
     \<lparr>initial_url = initial, target_url = href, final_url = new_page_url s,
      title = new_page_title s, content = collect_content els,
      full_text = make_full_text (collect_content els)\<rparr>"
    by blast
  have joined: "full_text result = join [CHR 0x0A, CHR 0x0A] (map text' (content result))"
    by (simp add: result make_full_text_def)
  have flat: "reduce_text (content result) = concat (map text' (content result))"
    by (rule reduce_text_eq)
  have nonempty: "\<forall>item \<in> set (content result). text' item \<noteq> []"
    by (auto simp add: result collect_content_eq)
  have differ: "full_text result \<noteq> reduce_text (content result)"
    if "2 \<le> length (content result)"
    unfolding joined flat
    by (rule join_neq_concat) (use that in simp_all)
  have passed: "tts_calls (snd (main_body s synth)) =
            [(reduce_text (content result), ''content.wav'', False)]"
    if "initial = ''https://www.perplexity.ai/'' \<and> sel = the_content_selector
        \<and> cdp = ''http://localhost:9222'' \<and> w = 5000 \<and> click = Some the_click_selector"
  proof -
    from assms that
    have "fst (navigate_with_specific_selectors s ''https://www.perplexity.ai/''
                  ''http://localhost:9222'') = Inr result"
      by (simp add: navigate_with_specific_selectors_def)
    from main_body_success [OF this] show ?thesis
      by simp
  qed
  from joined flat nonempty differ passed show ?thesis
    by (intro conjI impI)
qed

text \<open>The scenario: two items, \<open>Title\<close> and \<open>Body text\<close>.\<close>

theorem full_text_differs_from_synthesis_text_witness:
  "(\<exists>result.
      fst (navigate_and_extract_content sample_session ''https://www.perplexity.ai/''
             the_content_selector ''http://localhost:9222'' 5000 (Some the_click_selector))
        = Inr result
    \<and> full_text result = ''Title'' @ [CHR 0x0A, CHR 0x0A] @ ''Body text''
    \<and> reduce_text (content result) = ''TitleBody text''
    \<and> length (content result) = 2
    \<and> full_text result \<noteq> reduce_text (content result))
   \<and> tts_calls (snd (main_body sample_session sample_synth)) =
       [(''TitleBody text'', ''content.wav'', False)]"
proof -
  let ?result = "\<lparr>initial_url = ''https://www.perplexity.ai/'',
          target_url = ''https://www.perplexity.ai/page/1'',
          final_url = new_page_url sample_session,
          title = new_page_title sample_session,
          content = collect_content sample_elements,
          full_text = make_full_text (collect_content sample_elements)\<rparr>"
  have items: "collect_content sample_elements =
      [\<lparr>tag = ''h2'', text' = ''Title''\<rparr>, \<lparr>tag = ''p'', text' = ''Body text''\<rparr>]"
    by code_simp
  have ok: "connect_result sample_session = None"
    "goto_result sample_session Page ''https://www.perplexity.ai/'' = None"
    "evaluate_href sample_session = Some ''https://www.perplexity.ai/page/1''"
    "''https://www.perplexity.ai/page/1'' \<noteq> []"
    "goto_result sample_session New_page ''https://www.perplexity.ai/page/1'' = None"
    by (simp_all add: sample_session_def evaluate_href_def)
  have nav: "fst (navigate_and_extract_content sample_session ''https://www.perplexity.ai/''
             the_content_selector ''http://localhost:9222'' 5000 (Some the_click_selector))
        = Inr ?result"
    unfolding navigate_outcome [OF ok]
    by (simp add: sample_session_def)
  from full_text_differs_from_synthesis_text [OF nav, of sample_synth]
  have "full_text ?result = ''Title'' @ [CHR 0x0A, CHR 0x0A] @ ''Body text''
    \<and> reduce_text (content ?result) = ''TitleBody text''
    \<and> length (content ?result) = 2
    \<and> full_text ?result \<noteq> reduce_text (content ?result)"
    and "tts_calls (snd (main_body sample_session sample_synth)) =
       [(''TitleBody text'', ''content.wav'', False)]"
    by (simp_all add: items)
  with nav show ?thesis
    by blast
qed

text \<open>
  C10. When the sequencer succeeds with no item, the program still calls the model,
  with the empty string as text.
\<close>

theorem empty_content_is_synthesised:
  assumes "fst (navigate_with_specific_selectors s ''https://www.perplexity.ai/''
                  ''http://localhost:9222'') = Inr result"
    and "content result = []"
  shows "tts_calls (snd (main_body s synth)) = [([], ''content.wav'', False)]
    \<and> (fst (test_cdp_connection test_session ''http://localhost:9222'') = Inr True
        \<longrightarrow> tts_calls (snd (main test_session s synth)) = [([], ''content.wav'', False)])"
proof -
  from main_body_success [OF assms(1), of synth] assms(2)
  have body: "tts_calls (snd (main_body s synth)) = [([], ''content.wav'', False)]"
    by (simp add: reduce_text_def)
  have "tts_calls (snd (main test_session s synth)) = [([], ''content.wav'', False)]"
    if "fst (test_cdp_connection test_session ''http://localhost:9222'') = Inr True"
  proof -
    from that have "connect_result test_session = None"
      and "goto_result test_session Page ''https://example.com'' = None"
      by (simp_all add: test_cdp_connection_cases)
    from main_tts_calls [OF this] body show ?thesis
      by simp
  qed
  with body show ?thesis
    by blast
qed

text \<open>A container whose only paragraph is blank.\<close>

theorem empty_content_is_synthesised_witness:
  "tts_calls (snd (main sample_session
      (sample_session\<lparr>content_container :=
         (\<lambda>sel. Some [\<lparr>handle = 7, tagName = ''P'', inner_text = ''  ''\<rparr>])\<rparr>)
      sample_synth)) = [([], ''content.wav'', False)]
   \<and> exit_code (main sample_session
      (sample_session\<lparr>content_container :=
         (\<lambda>sel. Some [\<lparr>handle = 7, tagName = ''P'', inner_text = ''  ''\<rparr>])\<rparr>)
      sample_synth) = 0"
proof -
  let ?blank = "sample_session\<lparr>content_container :=
         (\<lambda>sel. Some [\<lparr>handle = 7, tagName = ''P'', inner_text = ''  ''\<rparr>])\<rparr>"
  let ?result = "\<lparr>initial_url = ''https://www.perplexity.ai/'',
          target_url = ''https://www.perplexity.ai/page/1'',
          final_url = new_page_url ?blank,
          title = new_page_title ?blank,
          content = [],
          full_text = make_full_text []\<rparr>"
  have items: "collect_content [\<lparr>handle = 7, tagName = ''P'', inner_text = ''  ''\<rparr>] = []"
    by code_simp
  have ok: "connect_result ?blank = None"
    "goto_result ?blank Page ''https://www.perplexity.ai/'' = None"
    "evaluate_href ?blank = Some ''https://www.perplexity.ai/page/1''"
    "''https://www.perplexity.ai/page/1'' \<noteq> []"
    "goto_result ?blank New_page ''https://www.perplexity.ai/page/1'' = None"
    by (simp_all add: sample_session_def evaluate_href_def)
  have nav: "fst (navigate_with_specific_selectors ?blank ''https://www.perplexity.ai/''
        ''http://localhost:9222'') = Inr ?result"
    unfolding navigate_with_specific_selectors_def navigate_outcome [OF ok]
    by (simp add: items)
  have test: "fst (test_cdp_connection sample_session ''http://localhost:9222'') = Inr True"
    by (simp add: test_cdp_connection_cases sample_session_def)
  have body: "fst (main_body ?blank sample_synth) = Inr ()"
    using main_body_success [OF nav, of sample_synth] by (simp add: sample_synth_def)
  have test_ok: "connect_result sample_session = None"
    "goto_result sample_session Page ''https://example.com'' = None"
    by (simp_all add: sample_session_def)
  have code: "exit_code (main sample_session ?blank sample_synth) = 0"
    by (simp add: main_cases body exit_code_def test_ok)
  from empty_content_is_synthesised [OF nav, of sample_synth sample_session] test code
  show ?thesis
    by simp
qed

end
